theory Spec2Isabelle
  imports Main
begin

section \<open>Data model of the executable transformer\<close>

text \<open>
  The Go package \<open>external\<close> runs a plugin through two command lines (detect and
  transform) and reads their JSON output. Go distinguishes a nil slice from an empty one
  and a nil map from an empty one, and the code tests both, so a slice is a
  \<open>list option\<close> and a map a \<open>(\<rightharpoonup>) option\<close>, with \<open>None\<close> for nil.
\<close>

datatype error = EnvironmentNotActiveError | OtherError string

text \<open>A run-time panic of Go: the function does not return.\<close>

datatype panic = IndexOutOfRange

text \<open>
  A value of Go's \<open>interface{}\<close> as the JSON decoder produces it. \<open>AnyNil\<close> is the nil
  interface; \<open>AnyMap None\<close> is a nil \<open>map[string]interface{}\<close> stored in an interface.
\<close>

datatype go_any =
    AnyNil
  | AnyBool bool
  | AnyNumber string
  | AnyString string
  | AnySlice "go_any list"
  | AnyMap "(string \<times> go_any) list option"

type_synonym Command = "string list"

text \<open>
  The key type of an artifact's paths. The constant \<open>artifacts.ServiceDirPathType\<close> is
  declared outside the files at hand; every other key is some other string.
\<close>

datatype PathType = ServiceDirPathType | OtherPathType string

type_synonym ConfigType = string

definition TemplateConfigType :: ConfigType where
  "TemplateConfigType = ''TemplateConfig''"

text \<open>
  Modelled from the spec: the declaration of \<open>transformertypes.Artifact\<close> is missing;
  the spec gives it the two fields the code reads and writes, paths (from path role to a
  list of paths) and configs (from config type to opaque data).
\<close>

record Artifact =
  Paths :: "(PathType \<rightharpoonup> string list option) option"
  Configs :: "(ConfigType \<rightharpoonup> go_any) option"

text \<open>
  Modelled from the spec: the declaration of \<open>transformertypes.PathMapping\<close> and of its
  type constants is missing; the spec gives type (template, source or another), source
  path, destination path and an optional template config.
\<close>

datatype PathMappingType =
  TemplatePathMappingType | SourcePathMappingType | OtherPathMappingType string

record PathMapping =
  Type :: PathMappingType
  SrcPath :: string
  DestPath :: string
  TemplateConfig :: go_any

text \<open>
  Modelled from the spec: the declaration of \<open>transformertypes.TransformOutput\<close> is
  missing; the spec gives it a list of path mappings and a list of created artifacts.
  Both are only ever appended to a slice, where nil and empty behave alike.
\<close>

record TransformOutput =
  PathMappings :: "PathMapping list"
  CreatedArtifacts :: "Artifact list"

type_synonym services = "(string \<rightharpoonup> Artifact list option) option"

text \<open>The container declaration of the plugin's configuration: only the image is read.\<close>

record Container =
  Image :: string

record ExecutableYamlConfig =
  EnableQA :: bool
  Platforms :: "string list"
  DirectoryDetectCMD :: "Command option"
  TransformCMD :: "Command option"
  ContainerCfg :: Container

text \<open>What \<open>Exec\<close> returns: stdout, stderr, exit code and error.\<close>

type_synonym exec_result = "string \<times> string \<times> int \<times> error option"

text \<open>
  The environment of a plugin instance. Its package is outside the files at hand, so its
  operations are fields: \<open>Exec\<close> runs a command in a world \<open>'w\<close> (the host or the
  container) that it may change, \<open>EnvironmentSource\<close> is what \<open>GetEnvironmentSource()\<close>
  returns.
\<close>

record 'w Environment =
  Context :: string
  RelTemplatesDir :: string
  EnvironmentSource :: string
  Exec :: "'w \<Rightarrow> Command \<Rightarrow> exec_result \<times> 'w"

text \<open>
  The functions of Go's standard library and the constant \<open>common.DefaultSourceDir\<close>
  that the code calls. \<open>json.Unmarshal\<close> is one field for each target type; it returns
  the value the target holds afterwards together with the error, since the decoder may
  have filled part of the target when it reports an error.
    \<^item> \<open>json_Unmarshal_services\<close>: into a nil \<open>map[string][]Artifact\<close>;
    \<^item> \<open>json_Unmarshal_config\<close>: into an empty, non-nil \<open>map[string]interface{}\<close>;
    \<^item> \<open>json_Unmarshal_output\<close>: into a zero \<open>TransformOutput\<close>.
\<close>

record golib =
  strings_TrimSpace :: "string \<Rightarrow> string"
  filepath_Rel :: "string \<Rightarrow> string \<Rightarrow> error + string"
  filepath_Join :: "string list \<Rightarrow> string"
  DefaultSourceDir :: string
  json_Unmarshal_services :: "string \<Rightarrow> services \<times> error option"
  json_Unmarshal_config :: "string \<Rightarrow> (string \<times> go_any) list option \<times> error option"
  json_Unmarshal_output :: "string \<Rightarrow> TransformOutput \<times> error option"

record 'w Executable =
  ConfigName :: string
  Env :: "'w Environment"
  ExecConfig :: ExecutableYamlConfig

section \<open>Detection\<close>

text \<open>
  \<open>executeDetect\<close>: run the command with the directory appended. An exec error is
  returned with a nil map, whichever error it is; a non-zero exit code gives a nil map
  and no error. Otherwise the trimmed stdout is decoded as the full detect output, and
  when that fails as a bare JSON object, which becomes the template config of one
  artifact of the unnamed service.
\<close>

definition executeDetect ::
  "golib \<Rightarrow> 'w Executable \<Rightarrow> Command \<Rightarrow> string \<Rightarrow> 'w \<Rightarrow> (services \<times> error option) \<times> 'w" where
  "executeDetect L t cmd dir w =
     (case Exec (Env t) w (cmd @ [dir]) of
        ((stdout, stderr, exitcode, err), w') \<Rightarrow>
          if err \<noteq> None then ((None, err), w')
          else if exitcode \<noteq> 0 then ((None, None), w')
          else
            let stdout' = strings_TrimSpace L stdout in
            (case json_Unmarshal_services L stdout' of
               (output, None) \<Rightarrow> ((output, None), w')
             | (_, Some _) \<Rightarrow>
                 let config =
                       (if stdout' \<noteq> [] then fst (json_Unmarshal_config L stdout') else None);
                     trans = \<lparr> Paths = Some [ServiceDirPathType \<mapsto> Some [dir]],
                               Configs = Some [TemplateConfigType \<mapsto> AnyMap config] \<rparr>
                 in ((Some [[] \<mapsto> Some [trans]], None), w')))"

text \<open>\<open>len(m)\<close> of a Go map is zero for the nil map and for the empty one.\<close>

definition len_is_zero :: "('k \<rightharpoonup> 'v) option \<Rightarrow> bool" where
  "len_is_zero m = (case m of None \<Rightarrow> True | Some f \<Rightarrow> f = Map.empty)"

text \<open>The body of the inner loop of \<open>DirectoryDetect\<close>, for one artifact.\<close>

definition defaultPaths :: "string \<Rightarrow> Artifact \<Rightarrow> Artifact" where
  "defaultPaths dir nst =
     (if len_is_zero (Paths nst)
      then nst\<lparr>Paths := Some [ServiceDirPathType \<mapsto> Some [dir]]\<rparr>
      else nst)"

text \<open>
  The two loops of \<open>DirectoryDetect\<close>: every artifact of every service is rewritten in
  place; ranging over a nil map or a nil slice does nothing.
\<close>

definition postProcess :: "string \<Rightarrow> services \<Rightarrow> services" where
  "postProcess dir svcs =
     map_option (\<lambda>m sn. map_option (map_option (map (defaultPaths dir))) (m sn)) svcs"

definition DirectoryDetect ::
  "golib \<Rightarrow> 'w Executable \<Rightarrow> string \<Rightarrow> 'w \<Rightarrow> (services \<times> error option) \<times> 'w" where
  "DirectoryDetect L t dir w =
     (case DirectoryDetectCMD (ExecConfig t) of
        None \<Rightarrow> ((None, None), w)
      | Some cmd \<Rightarrow>
          (case executeDetect L t cmd dir w of
             ((svcs, Some e), w') \<Rightarrow> ((svcs, Some e), w')
           | ((svcs, None), w') \<Rightarrow> ((postProcess dir svcs, None), w')))"

section \<open>Transformation\<close>

text \<open>
  \<open>m[k]\<close> on a Go map of slices: the nil slice when the map is nil or has no such key.
\<close>

definition pathsAt :: "(PathType \<rightharpoonup> string list option) option \<Rightarrow> PathType \<Rightarrow> string list option" where
  "pathsAt m k = (case m of None \<Rightarrow> None | Some f \<Rightarrow> (case f k of None \<Rightarrow> None | Some v \<Rightarrow> v))"

text \<open>\<open>s[0]\<close> on a Go slice: a panic when the slice is nil or empty.\<close>

fun index0 :: "string list option \<Rightarrow> panic + string" where
  "index0 None = Inl IndexOutOfRange"
| "index0 (Some []) = Inl IndexOutOfRange"
| "index0 (Some (x # _)) = Inr x"

text \<open>\<open>a.Configs[TemplateConfigType]\<close> behind the nil check: the nil interface when absent.\<close>

definition templateConfigOf :: "Artifact \<Rightarrow> go_any" where
  "templateConfigOf a =
     (case Configs a of
        None \<Rightarrow> AnyNil
      | Some c \<Rightarrow> (case c TemplateConfigType of None \<Rightarrow> AnyNil | Some v \<Rightarrow> v))"

text \<open>The two path mappings that the branch without a transform command appends.\<close>

definition templateMappings :: "golib \<Rightarrow> 'w Executable \<Rightarrow> Artifact \<Rightarrow> string \<Rightarrow> PathMapping list" where
  "templateMappings L t a relSrcPath =
     [\<lparr> Type = TemplatePathMappingType,
         SrcPath = filepath_Join L [Context (Env t), RelTemplatesDir (Env t)],
         DestPath = filepath_Join L [DefaultSourceDir L, relSrcPath],
         TemplateConfig = templateConfigOf a \<rparr>,
      \<lparr> Type = SourcePathMappingType,
         SrcPath = [],
         DestPath = DefaultSourceDir L,
         TemplateConfig = AnyNil \<rparr>]"

text \<open>
  The path argument of the transform command: the first service directory behind the
  guard \<open>a.Paths != nil && a.Paths[ServiceDirPathType] != nil\<close>, the empty string
  otherwise. The guard lets an empty, non-nil slice through.
\<close>

definition transformPath :: "Artifact \<Rightarrow> panic + string" where
  "transformPath a =
     (if Paths a \<noteq> None \<and> pathsAt (Paths a) ServiceDirPathType \<noteq> None
      then index0 (pathsAt (Paths a) ServiceDirPathType)
      else Inr [])"

text \<open>
  The state of the loop of \<open>Transform\<close>: the world, the path mappings and the created
  artifacts so far.
\<close>

type_synonym 'w acc = "'w \<times> PathMapping list \<times> Artifact list"

text \<open>The body of the loop, for one artifact; \<open>continue\<close> returns the state as it is.\<close>

definition transformArtifact ::
  "golib \<Rightarrow> 'w Executable \<Rightarrow> 'w acc \<Rightarrow> Artifact \<Rightarrow> panic + 'w acc" where
  "transformArtifact L t s a =
     (case s of (w, pathMappings, createdArtifacts) \<Rightarrow>
       (case TransformCMD (ExecConfig t) of
          None \<Rightarrow>
            (case index0 (pathsAt (Paths a) ServiceDirPathType) of
               Inl p \<Rightarrow> Inl p
             | Inr sd \<Rightarrow>
                 (case filepath_Rel L (EnvironmentSource (Env t)) sd of
                    Inl _ \<Rightarrow> Inr (w, pathMappings, createdArtifacts)
                  | Inr relSrcPath \<Rightarrow>
                      Inr (w, pathMappings @ templateMappings L t a relSrcPath, createdArtifacts)))
        | Some cmd \<Rightarrow>
            (case transformPath a of
               Inl p \<Rightarrow> Inl p
             | Inr path \<Rightarrow>
                 (case Exec (Env t) w (cmd @ [path]) of
                    ((stdout, stderr, exitcode, err), w') \<Rightarrow>
                      if err \<noteq> None then Inr (w', pathMappings, createdArtifacts)
                      else if exitcode \<noteq> 0 then Inr (w', pathMappings, createdArtifacts)
                      else
                        (case json_Unmarshal_output L (strings_TrimSpace L stdout) of
                           (output, _) \<Rightarrow>
                             Inr (w', pathMappings @ PathMappings output,
                                  createdArtifacts @ CreatedArtifacts output))))))"

fun transformLoop ::
  "golib \<Rightarrow> 'w Executable \<Rightarrow> 'w acc \<Rightarrow> Artifact list \<Rightarrow> panic + 'w acc" where
  "transformLoop L t s [] = Inr s"
| "transformLoop L t s (a # as) =
     (case transformArtifact L t s a of
        Inl p \<Rightarrow> Inl p
      | Inr s' \<Rightarrow> transformLoop L t s' as)"

text \<open>
  \<open>Transform\<close>: both results start as empty slices, and the only \<open>return\<close> gives a nil
  error. The second argument is never read.
\<close>

definition Transform ::
  "golib \<Rightarrow> 'w Executable \<Rightarrow> Artifact list \<Rightarrow> Artifact list \<Rightarrow> 'w
     \<Rightarrow> panic + ((PathMapping list \<times> Artifact list \<times> error option) \<times> 'w)" where
  "Transform L t newArtifacts alreadySeenArtifacts w =
     (case transformLoop L t (w, [], []) newArtifacts of
        Inl p \<Rightarrow> Inl p
      | Inr (w', pathMappings, createdArtifacts) \<Rightarrow>
          Inr ((pathMappings, createdArtifacts, None), w'))"

text \<open>
  The branch without a transform command, as the specification words it: an artifact
  gives a template mapping and a source mapping when it has a first service directory
  that can be made relative to the source root, and nothing otherwise.
\<close>

definition firstServiceDir :: "Artifact \<Rightarrow> string option" where
  "firstServiceDir a =
     (case pathsAt (Paths a) ServiceDirPathType of
        None \<Rightarrow> None
      | Some [] \<Rightarrow> None
      | Some (sd # _) \<Rightarrow> Some sd)"

definition fallbackMappings :: "golib \<Rightarrow> 'w Executable \<Rightarrow> Artifact \<Rightarrow> PathMapping list" where
  "fallbackMappings L t a =
     (case firstServiceDir a of
        None \<Rightarrow> []
      | Some sd \<Rightarrow>
          (case filepath_Rel L (EnvironmentSource (Env t)) sd of
             Inl _ \<Rightarrow> []
           | Inr relSrcPath \<Rightarrow> templateMappings L t a relSrcPath))"

section \<open>Initialisation\<close>

type_synonym addr = string

text \<open>The transformer declaration handed to \<open>Init\<close>: its name and its opaque config.\<close>

record 'c Transformer =
  Name :: string
  SpecConfig :: 'c

text \<open>
  The receiver of \<open>Init\<close>: the three fields of the Go struct, the two pointers nil
  before the first call.
\<close>

record ('c, 'w) ExecutableFields =
  fConfig :: "'c Transformer option"
  fEnv :: "'w Environment option"
  fExecConfig :: "ExecutableYamlConfig option"

text \<open>
  What \<open>Init\<close> calls outside the files at hand: the host operating system
  \<open>runtime.GOOS\<close>, \<open>common.GetObjFromInterface\<close> (the config it leaves in the fresh
  target, and its error), \<open>questionreceivers.StartGRPCReceiver\<close> and
  \<open>environment.NewEnvironment\<close>.
\<close>

record ('c, 'i, 'w) initdeps =
  GOOS :: string
  GetObjFromInterface :: "'c \<Rightarrow> ExecutableYamlConfig \<times> error option"
  StartGRPCReceiver :: "'w \<Rightarrow> (addr option \<times> error option) \<times> 'w"
  NewEnvironment ::
    "'i \<Rightarrow> addr option \<Rightarrow> Container \<Rightarrow> 'w \<Rightarrow> ('w Environment option \<times> error option) \<times> 'w"

text \<open>
  Modelled from the spec: \<open>common.IsPresent\<close> is missing; the spec reads the test as
  "the host OS is in platforms", membership in the list.
\<close>

definition IsPresent :: "string list \<Rightarrow> string \<Rightarrow> bool" where
  "IsPresent xs x = List.member xs x"

datatype init_panic = NilPointerDereference

text \<open>
  \<open>Init\<close>. The argument \<open>env\<close> is a pointer, read only where the environment is
  created. A failure to start the QA receiver is logged and nothing else; the address
  handed on is the one \<open>StartGRPCReceiver\<close> returned with its error.
\<close>

definition Init ::
  "('c, 'i, 'w) initdeps \<Rightarrow> ('c, 'w) ExecutableFields \<Rightarrow> 'c Transformer \<Rightarrow> 'i option \<Rightarrow> 'w
     \<Rightarrow> init_panic + ((error option \<times> ('c, 'w) ExecutableFields) \<times> 'w)" where
  "Init D t tc env w =
     (case GetObjFromInterface D (SpecConfig tc) of
        (cfg, err) \<Rightarrow>
          let t1 = t\<lparr>fConfig := Some tc, fExecConfig := Some cfg\<rparr> in
          (case err of
             Some e \<Rightarrow> Inr ((Some e, t1), w)
           | None \<Rightarrow>
               (case (if EnableQA cfg then StartGRPCReceiver D w else ((None, None), w)) of
                  ((qaRPCReceiverAddr, _), w1) \<Rightarrow>
                    if \<not> IsPresent (Platforms cfg) (GOOS D) \<and> Image (ContainerCfg cfg) = []
                    then Inr ((Some (OtherError (''platform '' @ GOOS D @
                                 '' not supported by transformer '' @ Name tc)), t1), w1)
                    else
                      (case env of
                         None \<Rightarrow> Inl NilPointerDereference
                       | Some envInfo \<Rightarrow>
                           (case NewEnvironment D envInfo qaRPCReceiverAddr (ContainerCfg cfg) w1 of
                              ((e, err2), w2) \<Rightarrow> Inr ((err2, t1\<lparr>fEnv := e\<rparr>), w2))))))"

section \<open>The container engine\<close>

text \<open>The three package variables of \<open>container\<close>; all zero when the process starts.\<close>

record 'e globals =
  inited :: bool
  disabled :: bool
  workingEngine :: "'e option"

definition initial_globals :: "'e globals" where
  "initial_globals = \<lparr> inited = False, disabled = False, workingEngine = None \<rparr>"

text \<open>
  What the package calls outside the file: \<open>qaengine.FetchBoolAnswer\<close> on the question
  "Allow spawning containers?" and \<open>newDockerEngine\<close>, whose first result is the value
  the variable \<open>workingEngine\<close> holds after the assignment (\<open>None\<close> when it compares
  equal to nil).
\<close>

record ('e, 'w) enginedeps =
  FetchBoolAnswer :: "'w \<Rightarrow> bool \<times> 'w"
  newDockerEngine :: "'w \<Rightarrow> ('e option \<times> error option) \<times> 'w"

text \<open>\<open>logrus.Fatalf\<close> ends the process: the call does not return.\<close>

datatype 'a outcome = Fatal | Returned 'a

definition initContainerEngine ::
  "('e, 'w) enginedeps \<Rightarrow> 'e globals \<Rightarrow> 'w \<Rightarrow> (error option \<times> 'e globals) \<times> 'w" where
  "initContainerEngine K g w =
     (case newDockerEngine K w of
        ((eng, err), w') \<Rightarrow>
          let g' = g\<lparr>workingEngine := eng\<rparr> in
          if err \<noteq> None
          then ((Some (OtherError ''failed to use docker as the container engine''), g'), w')
          else if eng = None
          then ((Some (OtherError ''no working container runtime available''), g'), w')
          else ((None, g'), w'))"

definition GetContainerEngine ::
  "('e, 'w) enginedeps \<Rightarrow> 'e globals \<Rightarrow> 'w \<Rightarrow> (('e option \<times> 'e globals) \<times> 'w) outcome" where
  "GetContainerEngine K g w =
     (if \<not> inited g then
        (case FetchBoolAnswer K w of
           (answer, w1) \<Rightarrow>
             let g1 = g\<lparr>disabled := \<not> answer\<rparr> in
             if \<not> disabled g1 then
               (case initContainerEngine K g1 w1 of
                  ((Some _, _), _) \<Rightarrow> Fatal
                | ((None, g2), w2) \<Rightarrow>
                    Returned ((workingEngine g2, g2\<lparr>inited := True\<rparr>), w2))
             else Returned ((workingEngine g1, g1\<lparr>inited := True\<rparr>), w1))
      else Returned ((workingEngine g, g), w))"

definition IsDisabled :: "'e globals \<Rightarrow> bool" where
  "IsDisabled g = disabled g"

text \<open>
  A run of \<open>n\<close> calls of \<open>GetContainerEngine\<close>, one after the other: the engines they
  return, and the variables and the world after the last.
\<close>

fun getEngineCalls ::
  "('e, 'w) enginedeps \<Rightarrow> nat \<Rightarrow> 'e globals \<Rightarrow> 'w \<Rightarrow> (('e option list \<times> 'e globals) \<times> 'w) outcome" where
  "getEngineCalls K 0 g w = Returned (([], g), w)"
| "getEngineCalls K (Suc n) g w =
     (case GetContainerEngine K g w of
        Fatal \<Rightarrow> Fatal
      | Returned ((e, g'), w') \<Rightarrow>
          (case getEngineCalls K n g' w' of
             Fatal \<Rightarrow> Fatal
           | Returned ((es, g''), w'') \<Rightarrow> Returned ((e # es, g''), w'')))"

section \<open>A concrete plugin\<close>

text \<open>
  One instance of everything the code takes from outside, small enough to evaluate: a
  world that counts the commands run, a plugin whose commands print fixed texts, and the
  standard library on exactly those texts. The properties below are proved for every
  instance; this one shows that their hypotheses can be met.
\<close>

definition is_space :: "char \<Rightarrow> bool" where
  "is_space c = List.member [CHR 0x09, CHR 0x0A, CHR 0x0B, CHR 0x0C, CHR 0x0D, CHR '' ''] c"

definition demo_TrimSpace :: "string \<Rightarrow> string" where
  "demo_TrimSpace s = rev (dropWhile is_space (rev (dropWhile is_space s)))"

text \<open>\<open>filepath.Rel\<close> on the paths used here: below the base, the base itself, or an error.\<close>

definition demo_Rel :: "string \<Rightarrow> string \<Rightarrow> error + string" where
  "demo_Rel base targ =
     (if targ = base then Inr ''.''
      else if take (length base + 1) targ = base @ ''/'' then Inr (drop (length base + 1) targ)
      else Inl (OtherError ''Rel: can't make path relative''))"

fun demo_Join :: "string list \<Rightarrow> string" where
  "demo_Join [] = []"
| "demo_Join [x] = x"
| "demo_Join (x # xs) = x @ ''/'' @ demo_Join xs"

definition stdout_config :: string where
  \<open>stdout_config = ''{"port": 8080}''\<close>

definition stdout_services :: string where
  \<open>stdout_services = ''{"web": [{}, {"paths": {"Dockerfile": ["/src/web/Dockerfile"]}}]}''\<close>

definition stdout_output :: string where
  \<open>stdout_output =
     ''{"pathMappings":[{"type":"source","srcPath":"","destPath":"/out"}],"createdArtifacts":[]}''\<close>

definition stdout_partial :: string where
  \<open>stdout_partial =
     ''{"pathMappings":[{"type":"source","srcPath":"","destPath":"/out"}],"createdArtifacts":5}''\<close>

definition bare_artifact :: Artifact where
  "bare_artifact = \<lparr> Paths = None, Configs = None \<rparr>"

definition dockerfile_artifact :: Artifact where
  "dockerfile_artifact =
     \<lparr> Paths = Some [OtherPathType ''Dockerfile'' \<mapsto> Some [''/src/web/Dockerfile'']],
       Configs = None \<rparr>"

definition demo_services :: "string \<rightharpoonup> Artifact list option" where
  "demo_services = [''web'' \<mapsto> Some [bare_artifact, dockerfile_artifact]]"

definition out_mapping :: PathMapping where
  "out_mapping =
     \<lparr> Type = SourcePathMappingType, SrcPath = [], DestPath = ''/out'', TemplateConfig = AnyNil \<rparr>"

definition type_error :: error where
  "type_error = OtherError ''json: cannot unmarshal number into Go value''"

definition syntax_error :: error where
  "syntax_error = OtherError ''invalid character looking for beginning of value''"

text \<open>
  The decoder of \<open>encoding/json\<close> on these texts. On a value of the wrong type it skips
  the field, goes on, and reports the first such error at the end, so the target keeps
  what was decoded: \<open>stdout_partial\<close> leaves one path mapping and an error.
\<close>

definition demo_Unmarshal_services :: "string \<Rightarrow> services \<times> error option" where
  "demo_Unmarshal_services s =
     (if s = stdout_services then (Some demo_services, None)
      else if s = stdout_config then (Some [''port'' \<mapsto> None], Some type_error)
      else (None, Some syntax_error))"

definition demo_Unmarshal_config :: "string \<Rightarrow> (string \<times> go_any) list option \<times> error option" where
  "demo_Unmarshal_config s =
     (if s = stdout_config then (Some [(''port'', AnyNumber ''8080'')], None)
      else (Some [], Some syntax_error))"

definition demo_Unmarshal_output :: "string \<Rightarrow> TransformOutput \<times> error option" where
  "demo_Unmarshal_output s =
     (if s = stdout_output
      then (\<lparr> PathMappings = [out_mapping], CreatedArtifacts = [] \<rparr>, None)
      else if s = stdout_partial
      then (\<lparr> PathMappings = [out_mapping], CreatedArtifacts = [] \<rparr>, Some type_error)
      else (\<lparr> PathMappings = [], CreatedArtifacts = [] \<rparr>, Some syntax_error))"

definition demo_lib :: golib where
  "demo_lib =
     \<lparr> strings_TrimSpace = demo_TrimSpace,
       filepath_Rel = demo_Rel,
       filepath_Join = demo_Join,
       DefaultSourceDir = ''source'',
       json_Unmarshal_services = demo_Unmarshal_services,
       json_Unmarshal_config = demo_Unmarshal_config,
       json_Unmarshal_output = demo_Unmarshal_output \<rparr>"

text \<open>The commands of the plugin, by their first word; each run counts in the world.\<close>

definition demo_run :: "string \<Rightarrow> exec_result" where
  "demo_run c =
     (if c = ''detect'' then (stdout_services @ [CHR 0x0A], [], 0, None)
      else if c = ''detect-config'' then (stdout_config @ [CHR 0x0A], [], 0, None)
      else if c = ''transform'' then (stdout_output, [], 0, None)
      else if c = ''transform-partial'' then (stdout_partial, [], 0, None)
      else if c = ''garbage'' then (''oops'', [], 0, None)
      else if c = ''exit1'' then ([], ''no such service'', 1, None)
      else if c = ''stopped'' then ([], [], 0, Some EnvironmentNotActiveError)
      else ([], [], 0, Some (OtherError ''executable file not found'')))"

definition demo_Exec :: "nat \<Rightarrow> Command \<Rightarrow> exec_result \<times> nat" where
  "demo_Exec w cmd = (demo_run (case cmd of [] \<Rightarrow> [] | c # _ \<Rightarrow> c), Suc w)"

definition demo_env :: "nat Environment" where
  "demo_env =
     \<lparr> Context = ''/plugins/demo'', RelTemplatesDir = ''templates'',
       EnvironmentSource = ''/src'', Exec = demo_Exec \<rparr>"

definition demo_plugin :: "Command option \<Rightarrow> Command option \<Rightarrow> nat Executable" where
  "demo_plugin detectCMD transformCMD =
     \<lparr> ConfigName = ''demo'', Env = demo_env,
       ExecConfig = \<lparr> EnableQA = False, Platforms = [''linux''],
                      DirectoryDetectCMD = detectCMD, TransformCMD = transformCMD,
                      ContainerCfg = \<lparr> Image = [] \<rparr> \<rparr> \<rparr>"

text \<open>Artifacts for the transform phase.\<close>

definition web_artifact :: Artifact where
  "web_artifact =
     \<lparr> Paths = Some [ServiceDirPathType \<mapsto> Some [''/src/web'']],
       Configs = Some [TemplateConfigType \<mapsto> AnyMap (Some [(''port'', AnyNumber ''8080'')])] \<rparr>"

definition relative_artifact :: Artifact where
  "relative_artifact =
     \<lparr> Paths = Some [ServiceDirPathType \<mapsto> Some [''api'']], Configs = None \<rparr>"

definition empty_dirs_artifact :: Artifact where
  "empty_dirs_artifact =
     \<lparr> Paths = Some [ServiceDirPathType \<mapsto> Some []], Configs = None \<rparr>"

text \<open>
  The collaborators of \<open>Init\<close> on a Linux host: three plugin configs by name, a QA
  receiver that cannot listen, and an environment that is always created.
\<close>

definition windows_config :: ExecutableYamlConfig where
  "windows_config =
     \<lparr> EnableQA = False, Platforms = [''windows''], DirectoryDetectCMD = Some [''detect''],
       TransformCMD = None, ContainerCfg = \<lparr> Image = [] \<rparr> \<rparr>"

definition qa_config :: ExecutableYamlConfig where
  "qa_config =
     \<lparr> EnableQA = True, Platforms = [''linux'', ''darwin''], DirectoryDetectCMD = Some [''detect''],
       TransformCMD = None, ContainerCfg = \<lparr> Image = [] \<rparr> \<rparr>"

definition zero_config :: ExecutableYamlConfig where
  "zero_config =
     \<lparr> EnableQA = False, Platforms = [], DirectoryDetectCMD = None,
       TransformCMD = None, ContainerCfg = \<lparr> Image = [] \<rparr> \<rparr>"

definition demo_GetObjFromInterface :: "string \<Rightarrow> ExecutableYamlConfig \<times> error option" where
  "demo_GetObjFromInterface c =
     (if c = ''windows-only'' then (windows_config, None)
      else if c = ''with-qa'' then (qa_config, None)
      else (zero_config, Some (OtherError ''unable to load config'')))"

definition demo_initdeps :: "(string, string, nat) initdeps" where
  "demo_initdeps =
     \<lparr> GOOS = ''linux'',
       GetObjFromInterface = demo_GetObjFromInterface,
       StartGRPCReceiver = (\<lambda>w. ((None, Some (OtherError ''failed to listen'')), Suc w)),
       NewEnvironment = (\<lambda>envInfo qaAddr c w. ((Some demo_env, None), Suc w)) \<rparr>"

definition fresh_fields :: "(string, nat) ExecutableFields" where
  "fresh_fields = \<lparr> fConfig = None, fEnv = None, fExecConfig = None \<rparr>"

text \<open>
  The collaborators of the container package: the operator's answer and the result of
  \<open>newDockerEngine\<close> are given; each call counts in the world.
\<close>

definition demo_enginedeps :: "bool \<Rightarrow> string option \<times> error option \<Rightarrow> (string, nat) enginedeps" where
  "demo_enginedeps answer eng =
     \<lparr> FetchBoolAnswer = (\<lambda>w. (answer, Suc w)),
       newDockerEngine = (\<lambda>w. (eng, Suc w)) \<rparr>"

section \<open>Evaluating the concrete plugin\<close>

lemmas demo_defs =
  demo_plugin_def demo_env_def demo_Exec_def demo_run_def demo_lib_def
  demo_TrimSpace_def is_space_def stdout_services_def stdout_config_def
  stdout_output_def stdout_partial_def
  demo_Unmarshal_services_def demo_Unmarshal_config_def demo_Unmarshal_output_def

lemma demo_detect_run:
  "executeDetect demo_lib (demo_plugin (Some [''detect'']) None) [''detect''] ''/src/web'' 0
     = ((Some demo_services, None), 1)"
  by (simp add: executeDetect_def demo_defs)

section \<open>Properties of detection\<close>

lemma len_is_zero_simps:
  "len_is_zero None = True"
  "len_is_zero (Some f) = (f = Map.empty)"
  by (simp_all add: len_is_zero_def)

lemma postProcess_lookup:
  "postProcess dir (Some m) = Some m' \<Longrightarrow> m' sn = map_option (map_option (map (defaultPaths dir))) (m sn)"
  by (auto simp: postProcess_def)

lemma defaultPaths_empty:
  "len_is_zero (Paths a) \<Longrightarrow> defaultPaths dir a = a\<lparr>Paths := Some [ServiceDirPathType \<mapsto> Some [dir]]\<rparr>"
  by (simp add: defaultPaths_def)

lemma defaultPaths_nonempty:
  "\<not> len_is_zero (Paths a) \<Longrightarrow> defaultPaths dir a = a"
  by (simp add: defaultPaths_def)

text \<open>
  Claim C6 (default path injection). When the detect command has run, exited with 0 and
  given a service map, \<open>DirectoryDetect\<close> returns a map with the same services, and in
  each service a list of the same length in which every artifact whose path map was
  empty (nil or without entries) now has exactly \<open>[dir]\<close> as its service directories,
  its configs untouched, and every artifact whose path map had an entry is as it was.
\<close>

theorem detect_default_path_injection:
  assumes cmd: "DirectoryDetectCMD (ExecConfig t) = Some cmd"
    and run: "executeDetect L t cmd dir w = ((Some m, None), w')"
    and svc: "m sn = Some (Some ns)"
  shows "\<exists>m' ns'. DirectoryDetect L t dir w = ((Some m', None), w')
           \<and> dom m' = dom m
           \<and> m' sn = Some (Some ns') \<and> length ns' = length ns
           \<and> (\<forall>i < length ns.
                 (len_is_zero (Paths (ns ! i)) \<longrightarrow>
                    Paths (ns' ! i) = Some [ServiceDirPathType \<mapsto> Some [dir]]
                    \<and> pathsAt (Paths (ns' ! i)) ServiceDirPathType = Some [dir]
                    \<and> Configs (ns' ! i) = Configs (ns ! i))
               \<and> (\<not> len_is_zero (Paths (ns ! i)) \<longrightarrow> ns' ! i = ns ! i))"
proof -
  let ?m' = "\<lambda>k. map_option (map_option (map (defaultPaths dir))) (m k)"
  let ?ns' = "map (defaultPaths dir) ns"
  have dd: "DirectoryDetect L t dir w = ((Some ?m', None), w')"
    using cmd run by (simp add: DirectoryDetect_def postProcess_def)
  have dm: "dom ?m' = dom m"
    by (auto simp: dom_def)
  have look: "?m' sn = Some (Some ?ns')"
    using svc by simp
  have each: "\<forall>i < length ns.
                 (len_is_zero (Paths (ns ! i)) \<longrightarrow>
                    Paths (?ns' ! i) = Some [ServiceDirPathType \<mapsto> Some [dir]]
                    \<and> pathsAt (Paths (?ns' ! i)) ServiceDirPathType = Some [dir]
                    \<and> Configs (?ns' ! i) = Configs (ns ! i))
               \<and> (\<not> len_is_zero (Paths (ns ! i)) \<longrightarrow> ?ns' ! i = ns ! i)"
    by (simp add: defaultPaths_def pathsAt_def)
  have len: "length ?ns' = length ns"
    by simp
  from dd dm look len each show ?thesis
    by blast
qed

text \<open>
  The theorem at the concrete plugin: the detect command prints a service with one
  artifact without paths and one with a Dockerfile path.
\<close>

theorem detect_default_path_injection_witness:
  "DirectoryDetectCMD (ExecConfig (demo_plugin (Some [''detect'']) None)) = Some [''detect'']
   \<and> executeDetect demo_lib (demo_plugin (Some [''detect'']) None) [''detect''] ''/src/web'' 0
       = ((Some demo_services, None), 1)
   \<and> demo_services ''web'' = Some (Some [bare_artifact, dockerfile_artifact])
   \<and> len_is_zero (Paths ([bare_artifact, dockerfile_artifact] ! 0))
   \<and> \<not> len_is_zero (Paths ([bare_artifact, dockerfile_artifact] ! 1))
   \<and> (\<exists>m' ns'. DirectoryDetect demo_lib (demo_plugin (Some [''detect'']) None) ''/src/web'' 0
                    = ((Some m', None), 1)
           \<and> m' ''web'' = Some (Some ns')
           \<and> pathsAt (Paths (ns' ! 0)) ServiceDirPathType = Some [''/src/web'']
           \<and> ns' ! 1 = dockerfile_artifact)"
proof -
  have h1: "DirectoryDetectCMD (ExecConfig (demo_plugin (Some [''detect'']) None)) = Some [''detect'']"
    by (simp add: demo_plugin_def)
  have h2: "executeDetect demo_lib (demo_plugin (Some [''detect'']) None) [''detect''] ''/src/web'' 0
       = ((Some demo_services, None), 1)"
    by (rule demo_detect_run)
  have h3: "demo_services ''web'' = Some (Some [bare_artifact, dockerfile_artifact])"
    by (simp add: demo_services_def)
  have z0: "len_is_zero (Paths ([bare_artifact, dockerfile_artifact] ! 0))"
    by (simp add: bare_artifact_def len_is_zero_def)
  have z1: "\<not> len_is_zero (Paths ([bare_artifact, dockerfile_artifact] ! 1))"
    by (simp add: dockerfile_artifact_def len_is_zero_def)
  from detect_default_path_injection [OF h1 h2 h3]
  obtain m' ns' where
    r: "DirectoryDetect demo_lib (demo_plugin (Some [''detect'']) None) ''/src/web'' 0
          = ((Some m', None), 1)"
       "m' ''web'' = Some (Some ns')"
    and e: "\<forall>i < length [bare_artifact, dockerfile_artifact].
                 (len_is_zero (Paths ([bare_artifact, dockerfile_artifact] ! i)) \<longrightarrow>
                    Paths (ns' ! i) = Some [ServiceDirPathType \<mapsto> Some [''/src/web'']]
                    \<and> pathsAt (Paths (ns' ! i)) ServiceDirPathType = Some [''/src/web'']
                    \<and> Configs (ns' ! i) = Configs ([bare_artifact, dockerfile_artifact] ! i))
               \<and> (\<not> len_is_zero (Paths ([bare_artifact, dockerfile_artifact] ! i)) \<longrightarrow>
                     ns' ! i = [bare_artifact, dockerfile_artifact] ! i)"
    by blast
  from e z0 have a0: "pathsAt (Paths (ns' ! 0)) ServiceDirPathType = Some [''/src/web'']"
    by force
  from e z1 have a1: "ns' ! 1 = dockerfile_artifact"
    by force
  from h1 h2 h3 z0 z1 r a0 a1 show ?thesis
    by blast
qed

lemma executeDetect_error:
  "Exec (Env t) w (cmd @ [dir]) = ((stdout, stderr, exitcode, Some e), w')
   \<Longrightarrow> executeDetect L t cmd dir w = ((None, Some e), w')"
  by (simp add: executeDetect_def)

lemma executeDetect_bad_exit:
  "Exec (Env t) w (cmd @ [dir]) = ((stdout, stderr, exitcode, None), w') \<Longrightarrow> exitcode \<noteq> 0
   \<Longrightarrow> executeDetect L t cmd dir w = ((None, None), w')"
  by (simp add: executeDetect_def)

lemma executeDetect_no_error:
  "Exec (Env t) w (cmd @ [dir]) = ((stdout, stderr, exitcode, None), w')
   \<Longrightarrow> snd (fst (executeDetect L t cmd dir w)) = None"
  by (simp add: executeDetect_def Let_def split: prod.splits option.splits)

text \<open>
  Claim C1 (detect fallback). The detect command runs and exits with 0; its trimmed
  stdout is not the full detect output (decoding it as a map from service names to
  artifact lists reports an error) but is a JSON object \<open>obj\<close> (not the empty text, and
  decoding it as an object gives \<open>obj\<close> without error). Then \<open>DirectoryDetect\<close> returns
  no error and the map with the single key \<open>""\<close>, holding one artifact whose paths are
  \<open>{serviceDir: [dir]}\<close> and whose configs are \<open>{TemplateConfig: obj}\<close>.
\<close>

theorem detect_fallback_object:
  assumes cmd: "DirectoryDetectCMD (ExecConfig t) = Some cmd"
    and run: "Exec (Env t) w (cmd @ [dir]) = ((stdout, stderr, 0, None), w')"
    and nonempty: "strings_TrimSpace L stdout \<noteq> []"
    and invalid: "json_Unmarshal_services L (strings_TrimSpace L stdout) = (partial, Some e)"
    and object: "json_Unmarshal_config L (strings_TrimSpace L stdout) = (Some obj, None)"
  shows "DirectoryDetect L t dir w =
           ((Some [[] \<mapsto> Some [\<lparr> Paths = Some [ServiceDirPathType \<mapsto> Some [dir]],
                                   Configs = Some [TemplateConfigType \<mapsto> AnyMap (Some obj)] \<rparr>]],
             None), w')"
proof -
  let ?trans = "\<lparr> Paths = Some [ServiceDirPathType \<mapsto> Some [dir]],
                   Configs = Some [TemplateConfigType \<mapsto> AnyMap (Some obj)] \<rparr>"
  have ex: "executeDetect L t cmd dir w = ((Some [[] \<mapsto> Some [?trans]], None), w')"
    using run nonempty invalid object by (simp add: executeDetect_def)
  have keep: "defaultPaths dir ?trans = ?trans"
    by (simp add: defaultPaths_def len_is_zero_def)
  have "postProcess dir (Some [[] \<mapsto> Some [?trans]]) = Some [[] \<mapsto> Some [?trans]]"
    unfolding postProcess_def using keep by (auto simp: fun_eq_iff)
  with cmd ex show ?thesis
    by (simp add: DirectoryDetect_def)
qed

text \<open>The theorem at the concrete plugin, whose detect command prints \<open>{"port": 8080}\<close>.\<close>

theorem detect_fallback_object_witness:
  "DirectoryDetectCMD (ExecConfig (demo_plugin (Some [''detect-config'']) None)) = Some [''detect-config'']
   \<and> Exec (Env (demo_plugin (Some [''detect-config'']) None)) 0 ([''detect-config''] @ [''/src/web''])
        = ((stdout_config @ [CHR 0x0A], [], 0, None), 1)
   \<and> strings_TrimSpace demo_lib (stdout_config @ [CHR 0x0A]) \<noteq> []
   \<and> json_Unmarshal_services demo_lib (strings_TrimSpace demo_lib (stdout_config @ [CHR 0x0A]))
        = (Some [''port'' \<mapsto> None], Some type_error)
   \<and> json_Unmarshal_config demo_lib (strings_TrimSpace demo_lib (stdout_config @ [CHR 0x0A]))
        = (Some [(''port'', AnyNumber ''8080'')], None)
   \<and> DirectoryDetect demo_lib (demo_plugin (Some [''detect-config'']) None) ''/src/web'' 0 =
           ((Some [[] \<mapsto> Some [\<lparr> Paths = Some [ServiceDirPathType \<mapsto> Some [''/src/web'']],
                                   Configs = Some [TemplateConfigType \<mapsto>
                                     AnyMap (Some [(''port'', AnyNumber ''8080'')])] \<rparr>]],
             None), 1)"
proof -
  have h1: "DirectoryDetectCMD (ExecConfig (demo_plugin (Some [''detect-config'']) None)) = Some [''detect-config'']"
    by (simp add: demo_plugin_def)
  have h2: "Exec (Env (demo_plugin (Some [''detect-config'']) None)) 0 ([''detect-config''] @ [''/src/web''])
        = ((stdout_config @ [CHR 0x0A], [], 0, None), 1)"
    by (simp add: demo_plugin_def demo_env_def demo_Exec_def demo_run_def)
  have tr: "strings_TrimSpace demo_lib (stdout_config @ [CHR 0x0A]) = stdout_config"
    by (simp add: demo_lib_def demo_TrimSpace_def is_space_def stdout_config_def)
  have h3: "strings_TrimSpace demo_lib (stdout_config @ [CHR 0x0A]) \<noteq> []"
    unfolding tr by (simp add: stdout_config_def)
  have h4: "json_Unmarshal_services demo_lib (strings_TrimSpace demo_lib (stdout_config @ [CHR 0x0A]))
        = (Some [''port'' \<mapsto> None], Some type_error)"
    unfolding tr by (simp add: demo_lib_def demo_Unmarshal_services_def stdout_config_def stdout_services_def)
  have h5: "json_Unmarshal_config demo_lib (strings_TrimSpace demo_lib (stdout_config @ [CHR 0x0A]))
        = (Some [(''port'', AnyNumber ''8080'')], None)"
    unfolding tr by (simp add: demo_lib_def demo_Unmarshal_config_def)
  from detect_fallback_object [OF h1 h2 h3 h4 h5] h1 h2 h3 h4 h5 show ?thesis
    by blast
qed

text \<open>
  Claim C4 as stated fails: the claim has an exec error other than "environment not
  active" absorbed, but \<open>executeDetect\<close> ends with \<open>return nil, err\<close> on every exec
  error, and \<open>DirectoryDetect\<close> hands that error on. Here the command cannot be found.
\<close>

theorem detect_exec_error_escapes:
  "DirectoryDetect demo_lib (demo_plugin (Some [''missing'']) None) ''/src/web'' 0
     = ((None, Some (OtherError ''executable file not found'')), 1)
   \<and> OtherError ''executable file not found'' \<noteq> EnvironmentNotActiveError"
  by (simp add: DirectoryDetect_def executeDetect_def demo_plugin_def demo_env_def
      demo_Exec_def demo_run_def)

text \<open>
  Claim C4, amended. When the detect command exits with a non-zero code and \<open>Exec\<close>
  reports no error, \<open>DirectoryDetect\<close> returns the empty (nil) result and no error. When
  \<open>Exec\<close> reports an error, whichever it is, \<open>DirectoryDetect\<close> returns the empty result
  together with that error. In every case the error of \<open>DirectoryDetect\<close> is the error
  of \<open>Exec\<close>: nothing else escapes.
\<close>

theorem detect_error_policy:
  assumes cmd: "DirectoryDetectCMD (ExecConfig t) = Some cmd"
    and run: "Exec (Env t) w (cmd @ [dir]) = ((stdout, stderr, exitcode, err), w')"
  shows "(err = None \<and> exitcode \<noteq> 0 \<longrightarrow> DirectoryDetect L t dir w = ((None, None), w'))
       \<and> (\<forall>e. err = Some e \<longrightarrow> DirectoryDetect L t dir w = ((None, Some e), w'))
       \<and> snd (fst (DirectoryDetect L t dir w)) = err"
proof (cases err)
  case None
  have noerr: "snd (fst (executeDetect L t cmd dir w)) = None"
    using run None by (simp add: executeDetect_no_error)
  have a: "snd (fst (DirectoryDetect L t dir w)) = None"
    using cmd noerr by (auto simp: DirectoryDetect_def split: prod.splits option.splits)
  have b: "exitcode \<noteq> 0 \<longrightarrow> DirectoryDetect L t dir w = ((None, None), w')"
    using cmd run None
    by (simp add: DirectoryDetect_def executeDetect_bad_exit postProcess_def)
  from a b None show ?thesis by simp
next
  case (Some e)
  have "executeDetect L t cmd dir w = ((None, Some e), w')"
    using run Some by (simp add: executeDetect_error)
  with cmd Some show ?thesis
    by (simp add: DirectoryDetect_def)
qed

text \<open>
  The theorem at the concrete plugin: a command that exits with 1, and one whose
  environment is not active.
\<close>

theorem detect_error_policy_witness:
  "DirectoryDetect demo_lib (demo_plugin (Some [''exit1'']) None) ''/src/web'' 0 = ((None, None), 1)
   \<and> DirectoryDetect demo_lib (demo_plugin (Some [''stopped'']) None) ''/src/web'' 0
       = ((None, Some EnvironmentNotActiveError), 1)"
proof -
  have c1: "DirectoryDetectCMD (ExecConfig (demo_plugin (Some [''exit1'']) None)) = Some [''exit1'']"
    by (simp add: demo_plugin_def)
  have r1: "Exec (Env (demo_plugin (Some [''exit1'']) None)) 0 ([''exit1''] @ [''/src/web''])
        = (([], ''no such service'', 1, None), 1)"
    by (simp add: demo_plugin_def demo_env_def demo_Exec_def demo_run_def)
  have c2: "DirectoryDetectCMD (ExecConfig (demo_plugin (Some [''stopped'']) None)) = Some [''stopped'']"
    by (simp add: demo_plugin_def)
  have r2: "Exec (Env (demo_plugin (Some [''stopped'']) None)) 0 ([''stopped''] @ [''/src/web''])
        = (([], [], 0, Some EnvironmentNotActiveError), 1)"
    by (simp add: demo_plugin_def demo_env_def demo_Exec_def demo_run_def)
  from detect_error_policy [OF c1 r1, of demo_lib] detect_error_policy [OF c2 r2, of demo_lib]
  show ?thesis by simp
qed

section \<open>Properties of the transformation without a transform command\<close>

lemma index0_firstServiceDir:
  "index0 (pathsAt (Paths a) ServiceDirPathType) =
     (case firstServiceDir a of None \<Rightarrow> Inl IndexOutOfRange | Some sd \<Rightarrow> Inr sd)"
  by (simp add: firstServiceDir_def split: option.splits list.splits)

lemma fallback_step:
  assumes "TransformCMD (ExecConfig t) = None" and "firstServiceDir a = Some sd"
  shows "transformArtifact L t (w, pm, ca) a = Inr (w, pm @ fallbackMappings L t a, ca)"
  using assms
  by (simp add: transformArtifact_def index0_firstServiceDir fallbackMappings_def split: sum.splits)

lemma fallback_step_panic:
  assumes "TransformCMD (ExecConfig t) = None" and "firstServiceDir a = None"
  shows "transformArtifact L t s a = Inl IndexOutOfRange"
  using assms
  by (simp add: transformArtifact_def index0_firstServiceDir split: prod.splits)

lemma fallback_loop:
  assumes "TransformCMD (ExecConfig t) = None"
    and "\<forall>a \<in> set as. firstServiceDir a \<noteq> None"
  shows "transformLoop L t (w, pm, ca) as
           = Inr (w, pm @ concat (map (fallbackMappings L t) as), ca)"
  using assms(2)
proof (induction as arbitrary: pm)
  case Nil
  then show ?case by simp
next
  case (Cons a as)
  then obtain sd where sd: "firstServiceDir a = Some sd"
    by auto
  have step: "transformArtifact L t (w, pm, ca) a = Inr (w, pm @ fallbackMappings L t a, ca)"
    using assms(1) sd by (rule fallback_step)
  from Cons have rest: "transformLoop L t (w, pm @ fallbackMappings L t a, ca) as
           = Inr (w, (pm @ fallbackMappings L t a) @ concat (map (fallbackMappings L t) as), ca)"
    by simp
  show ?case
    using step rest by simp
qed

lemma fallback_loop_panic:
  assumes "TransformCMD (ExecConfig t) = None"
    and "\<exists>a \<in> set as. firstServiceDir a = None"
  shows "transformLoop L t (w, pm, ca) as = Inl IndexOutOfRange"
  using assms(2)
proof (induction as arbitrary: pm)
  case Nil
  then show ?case by simp
next
  case (Cons a as)
  show ?case
  proof (cases "firstServiceDir a")
    case None
    then show ?thesis
      using assms(1) by (simp add: fallback_step_panic)
  next
    case (Some sd)
    with Cons.prems have "\<exists>b \<in> set as. firstServiceDir b = None"
      by auto
    then have "transformLoop L t (w, pm @ fallbackMappings L t a, ca) as = Inl IndexOutOfRange"
      by (rule Cons.IH)
    then show ?thesis
      using fallback_step [OF assms(1) Some] by simp
  qed
qed

lemma length_fallbackMappings:
  "filepath_Rel L (EnvironmentSource (Env t)) sd = Inr rel \<Longrightarrow> firstServiceDir a = Some sd
   \<Longrightarrow> length (fallbackMappings L t a) = 2"
  by (simp add: fallbackMappings_def templateMappings_def)

lemma length_concat_const:
  "\<forall>x \<in> set xs. length (f x) = k \<Longrightarrow> length (concat (map f xs)) = k * length xs"
  by (induction xs) auto

text \<open>
  Claim C3 (template fallback). No transform command is configured and every artifact
  has a first service directory. Then \<open>Transform\<close> returns, with no error, no created
  artifact and the world untouched, the path mappings of the artifacts in order, where
  an artifact whose directory \<open>filepath.Rel\<close> makes relative to the source root gives
  the template mapping (from the plugin's templates directory to the default source
  directory joined with the relative path, carrying the artifact's template config)
  followed by the source mapping (empty source path, default source directory), and an
  artifact whose directory cannot be made relative gives nothing and does not stop the
  loop. When every directory can be made relative there are exactly \<open>2n\<close> mappings.
\<close>

theorem template_fallback_mappings:
  assumes nocmd: "TransformCMD (ExecConfig t) = None"
    and dirs: "\<forall>a \<in> set as. firstServiceDir a \<noteq> None"
  shows "Transform L t as seen w = Inr ((concat (map (fallbackMappings L t) as), [], None), w)
       \<and> (\<forall>a \<in> set as. \<forall>sd. firstServiceDir a = Some sd \<longrightarrow>
             (\<forall>rel. filepath_Rel L (EnvironmentSource (Env t)) sd = Inr rel \<longrightarrow>
                fallbackMappings L t a =
                  [\<lparr> Type = TemplatePathMappingType,
                      SrcPath = filepath_Join L [Context (Env t), RelTemplatesDir (Env t)],
                      DestPath = filepath_Join L [DefaultSourceDir L, rel],
                      TemplateConfig = templateConfigOf a \<rparr>,
                   \<lparr> Type = SourcePathMappingType, SrcPath = [],
                      DestPath = DefaultSourceDir L, TemplateConfig = AnyNil \<rparr>])
           \<and> (\<forall>e. filepath_Rel L (EnvironmentSource (Env t)) sd = Inl e \<longrightarrow>
                fallbackMappings L t a = []))
       \<and> ((\<forall>a \<in> set as. \<forall>sd. firstServiceDir a = Some sd \<longrightarrow>
               (\<exists>rel. filepath_Rel L (EnvironmentSource (Env t)) sd = Inr rel))
            \<longrightarrow> length (concat (map (fallbackMappings L t) as)) = 2 * length as)"
proof -
  have run: "Transform L t as seen w = Inr ((concat (map (fallbackMappings L t) as), [], None), w)"
    using fallback_loop [OF nocmd dirs, of L w "[]" "[]"] by (simp add: Transform_def)
  have shape: "\<forall>a \<in> set as. \<forall>sd. firstServiceDir a = Some sd \<longrightarrow>
             (\<forall>rel. filepath_Rel L (EnvironmentSource (Env t)) sd = Inr rel \<longrightarrow>
                fallbackMappings L t a =
                  [\<lparr> Type = TemplatePathMappingType,
                      SrcPath = filepath_Join L [Context (Env t), RelTemplatesDir (Env t)],
                      DestPath = filepath_Join L [DefaultSourceDir L, rel],
                      TemplateConfig = templateConfigOf a \<rparr>,
                   \<lparr> Type = SourcePathMappingType, SrcPath = [],
                      DestPath = DefaultSourceDir L, TemplateConfig = AnyNil \<rparr>])
           \<and> (\<forall>e. filepath_Rel L (EnvironmentSource (Env t)) sd = Inl e \<longrightarrow>
                fallbackMappings L t a = [])"
    by (simp add: fallbackMappings_def templateMappings_def)
  have count: "(\<forall>a \<in> set as. \<forall>sd. firstServiceDir a = Some sd \<longrightarrow>
               (\<exists>rel. filepath_Rel L (EnvironmentSource (Env t)) sd = Inr rel))
            \<longrightarrow> length (concat (map (fallbackMappings L t) as)) = 2 * length as"
  proof
    assume ok: "\<forall>a \<in> set as. \<forall>sd. firstServiceDir a = Some sd \<longrightarrow>
               (\<exists>rel. filepath_Rel L (EnvironmentSource (Env t)) sd = Inr rel)"
    have "\<forall>a \<in> set as. length (fallbackMappings L t a) = 2"
    proof
      fix a assume a: "a \<in> set as"
      with dirs obtain sd where sd: "firstServiceDir a = Some sd" by auto
      with ok a obtain rel where "filepath_Rel L (EnvironmentSource (Env t)) sd = Inr rel" by blast
      then show "length (fallbackMappings L t a) = 2"
        using sd by (rule length_fallbackMappings)
    qed
    then show "length (concat (map (fallbackMappings L t) as)) = 2 * length as"
      by (rule length_concat_const)
  qed
  from run shape count show ?thesis by blast
qed

text \<open>
  The theorem at the concrete plugin: \<open>/src/web\<close> lies under the source root \<open>/src\<close>,
  the relative path \<open>api\<close> cannot be made relative to it and is skipped.
\<close>

theorem template_fallback_mappings_witness:
  "TransformCMD (ExecConfig (demo_plugin None None)) = None
   \<and> firstServiceDir web_artifact = Some ''/src/web''
   \<and> firstServiceDir relative_artifact = Some ''api''
   \<and> filepath_Rel demo_lib (EnvironmentSource (Env (demo_plugin None None))) ''/src/web'' = Inr ''web''
   \<and> filepath_Rel demo_lib (EnvironmentSource (Env (demo_plugin None None))) ''api''
        = Inl (OtherError ''Rel: can't make path relative'')
   \<and> Transform demo_lib (demo_plugin None None) [web_artifact, relative_artifact, web_artifact] [] 0
        = Inr ((concat (map (fallbackMappings demo_lib (demo_plugin None None))
                  [web_artifact, relative_artifact, web_artifact]), [], None), 0)
   \<and> fallbackMappings demo_lib (demo_plugin None None) web_artifact
        = [\<lparr> Type = TemplatePathMappingType, SrcPath = ''/plugins/demo/templates'',
              DestPath = ''source/web'',
              TemplateConfig = AnyMap (Some [(''port'', AnyNumber ''8080'')]) \<rparr>,
           \<lparr> Type = SourcePathMappingType, SrcPath = [], DestPath = ''source'',
              TemplateConfig = AnyNil \<rparr>]
   \<and> fallbackMappings demo_lib (demo_plugin None None) relative_artifact = []
   \<and> length (concat (map (fallbackMappings demo_lib (demo_plugin None None))
         [web_artifact, web_artifact])) = 2 * length [web_artifact, web_artifact]"
proof -
  let ?t = "demo_plugin None None"
  have nocmd: "TransformCMD (ExecConfig ?t) = None"
    by (simp add: demo_plugin_def)
  have fw: "firstServiceDir web_artifact = Some ''/src/web''"
    by (simp add: firstServiceDir_def pathsAt_def web_artifact_def)
  have fr: "firstServiceDir relative_artifact = Some ''api''"
    by (simp add: firstServiceDir_def pathsAt_def relative_artifact_def)
  have rw: "filepath_Rel demo_lib (EnvironmentSource (Env ?t)) ''/src/web'' = Inr ''web''"
    by (simp add: demo_lib_def demo_plugin_def demo_env_def demo_Rel_def)
  have rr: "filepath_Rel demo_lib (EnvironmentSource (Env ?t)) ''api''
        = Inl (OtherError ''Rel: can't make path relative'')"
    by (simp add: demo_lib_def demo_plugin_def demo_env_def demo_Rel_def)
  have d3: "\<forall>a \<in> set [web_artifact, relative_artifact, web_artifact]. firstServiceDir a \<noteq> None"
    using fw fr by simp
  have d2: "\<forall>a \<in> set [web_artifact, web_artifact]. firstServiceDir a \<noteq> None"
    using fw by simp
  note A = template_fallback_mappings [OF nocmd d3, of demo_lib "[]" 0]
  note B = template_fallback_mappings [OF nocmd d2, of demo_lib "[]" 0]
  have run: "Transform demo_lib ?t [web_artifact, relative_artifact, web_artifact] [] 0
        = Inr ((concat (map (fallbackMappings demo_lib ?t)
                  [web_artifact, relative_artifact, web_artifact]), [], None), 0)"
    using A by blast
  have jw: "filepath_Join demo_lib [Context (Env ?t), RelTemplatesDir (Env ?t)] = ''/plugins/demo/templates''"
    by (simp add: demo_lib_def demo_plugin_def demo_env_def)
  have jd: "filepath_Join demo_lib [''source'', ''web''] = ''source/web''"
    by (simp add: demo_lib_def)
  have cw: "templateConfigOf web_artifact = AnyMap (Some [(''port'', AnyNumber ''8080'')])"
    by (simp add: templateConfigOf_def web_artifact_def)
  have ds: "DefaultSourceDir demo_lib = ''source''"
    by (simp add: demo_lib_def)
  have "fallbackMappings demo_lib ?t web_artifact =
          [\<lparr> Type = TemplatePathMappingType,
              SrcPath = filepath_Join demo_lib [Context (Env ?t), RelTemplatesDir (Env ?t)],
              DestPath = filepath_Join demo_lib [DefaultSourceDir demo_lib, ''web''],
              TemplateConfig = templateConfigOf web_artifact \<rparr>,
           \<lparr> Type = SourcePathMappingType, SrcPath = [],
              DestPath = DefaultSourceDir demo_lib, TemplateConfig = AnyNil \<rparr>]"
    using A fw rw by simp
  then have mw: "fallbackMappings demo_lib ?t web_artifact
        = [\<lparr> Type = TemplatePathMappingType, SrcPath = ''/plugins/demo/templates'',
              DestPath = ''source/web'',
              TemplateConfig = AnyMap (Some [(''port'', AnyNumber ''8080'')]) \<rparr>,
           \<lparr> Type = SourcePathMappingType, SrcPath = [], DestPath = ''source'',
              TemplateConfig = AnyNil \<rparr>]"
    by (simp only: jw jd cw ds)
  have mr: "fallbackMappings demo_lib ?t relative_artifact = []"
    using A fr rr by simp
  have "\<forall>a \<in> set [web_artifact, web_artifact]. \<forall>sd. firstServiceDir a = Some sd \<longrightarrow>
               (\<exists>rel. filepath_Rel demo_lib (EnvironmentSource (Env ?t)) sd = Inr rel)"
    using fw rw by simp
  with B have cnt: "length (concat (map (fallbackMappings demo_lib ?t)
         [web_artifact, web_artifact])) = 2 * length [web_artifact, web_artifact]"
    by blast
  from nocmd fw fr rw rr run mw mr cnt show ?thesis
    by blast
qed

section \<open>Properties of the transformation with a transform command\<close>

text \<open>
  What one turn of the loop does when a transform command is configured: the guard gives
  the empty path for a nil path map or a nil list, the first directory for a list with an
  element, and a panic for an empty list that is not nil; an exec error or a non-zero
  exit code leaves both results as they were; after exit code 0 the turn appends what the
  decoder left in the output, whether or not the decoder reported an error.
\<close>

lemma firstServiceDir_None_iff:
  "firstServiceDir a = None \<longleftrightarrow> (\<forall>sd rest. pathsAt (Paths a) ServiceDirPathType \<noteq> Some (sd # rest))"
  by (simp add: firstServiceDir_def split: option.splits list.splits)

lemma transformPath_guarded:
  "pathsAt (Paths a) ServiceDirPathType = None \<Longrightarrow> transformPath a = Inr []"
  by (simp add: transformPath_def)

lemma transformPath_first:
  "pathsAt (Paths a) ServiceDirPathType = Some (sd # rest) \<Longrightarrow> transformPath a = Inr sd"
  by (auto simp: transformPath_def pathsAt_def split: option.splits)

lemma transformPath_empty_slice:
  "pathsAt (Paths a) ServiceDirPathType = Some [] \<Longrightarrow> transformPath a = Inl IndexOutOfRange"
  by (auto simp: transformPath_def pathsAt_def split: option.splits)

lemma command_step_returns:
  assumes "TransformCMD (ExecConfig t) = Some cmd" and "transformPath a = Inr path"
  shows "\<exists>s'. transformArtifact L t s a = Inr s'"
  using assms
  by (auto simp: transformArtifact_def split: prod.splits)

lemma command_step_skips:
  assumes "TransformCMD (ExecConfig t) = Some cmd" and "transformPath a = Inr path"
    and "Exec (Env t) w (cmd @ [path]) = ((stdout, stderr, exitcode, err), w')"
    and "err \<noteq> None \<or> exitcode \<noteq> 0"
  shows "transformArtifact L t (w, pm, ca) a = Inr (w', pm, ca)"
  using assms
  by (auto simp: transformArtifact_def)

lemma command_step_appends:
  assumes "TransformCMD (ExecConfig t) = Some cmd" and "transformPath a = Inr path"
    and "Exec (Env t) w (cmd @ [path]) = ((stdout, stderr, 0, None), w')"
    and "json_Unmarshal_output L (strings_TrimSpace L stdout) = (output, err)"
  shows "transformArtifact L t (w, pm, ca) a
           = Inr (w', pm @ PathMappings output, ca @ CreatedArtifacts output)"
  using assms
  by (simp add: transformArtifact_def)

lemma Transform_error_nil:
  "Transform L t as seen w = Inr ((pm, ca, err), w') \<Longrightarrow> err = None"
  by (auto simp: Transform_def split: sum.splits prod.splits)

text \<open>
  Where the access \<open>[0]\<close> is safe. Without a transform command, the turn of the loop
  for an artifact that has no first service directory (nil path map, no such key, nil or
  empty list) panics with an index out of range, and \<open>Transform\<close> as a whole panics
  exactly when some input artifact is such; an artifact with a first service directory
  never panics. With a transform command, an artifact whose path map is nil or whose
  service directory list is nil or absent passes the empty string to the command and does
  not panic.
\<close>

theorem fallback_branch_unguarded:
  "(TransformCMD (ExecConfig t) = None \<longrightarrow>
      (firstServiceDir a = None \<longrightarrow> transformArtifact L t s a = Inl IndexOutOfRange)
    \<and> (firstServiceDir a \<noteq> None \<longrightarrow> (\<exists>s'. transformArtifact L t s a = Inr s'))
    \<and> (Transform L t as seen w = Inl IndexOutOfRange \<longleftrightarrow> (\<exists>b \<in> set as. firstServiceDir b = None)))
   \<and> (TransformCMD (ExecConfig t) \<noteq> None \<longrightarrow>
      pathsAt (Paths a) ServiceDirPathType = None \<longrightarrow>
        transformPath a = Inr [] \<and> (\<exists>s'. transformArtifact L t s a = Inr s'))"
proof -
  have fallback: "(firstServiceDir a = None \<longrightarrow> transformArtifact L t s a = Inl IndexOutOfRange)
    \<and> (firstServiceDir a \<noteq> None \<longrightarrow> (\<exists>s'. transformArtifact L t s a = Inr s'))
    \<and> (Transform L t as seen w = Inl IndexOutOfRange \<longleftrightarrow> (\<exists>b \<in> set as. firstServiceDir b = None))"
    if nocmd: "TransformCMD (ExecConfig t) = None"
  proof -
    have p: "firstServiceDir a = None \<longrightarrow> transformArtifact L t s a = Inl IndexOutOfRange"
      using nocmd by (simp add: fallback_step_panic)
    have q: "firstServiceDir a \<noteq> None \<longrightarrow> (\<exists>s'. transformArtifact L t s a = Inr s')"
    proof
      assume "firstServiceDir a \<noteq> None"
      then obtain sd where sd: "firstServiceDir a = Some sd" by auto
      obtain w0 pm ca where s: "s = (w0, pm, ca)" by (cases s) auto
      show "\<exists>s'. transformArtifact L t s a = Inr s'"
        unfolding s using fallback_step [OF nocmd sd] by blast
    qed
    have r: "Transform L t as seen w = Inl IndexOutOfRange \<longleftrightarrow> (\<exists>b \<in> set as. firstServiceDir b = None)"
    proof
      assume pan: "Transform L t as seen w = Inl IndexOutOfRange"
      show "\<exists>b \<in> set as. firstServiceDir b = None"
      proof (rule ccontr)
        assume "\<not> (\<exists>b \<in> set as. firstServiceDir b = None)"
        then have "\<forall>b \<in> set as. firstServiceDir b \<noteq> None" by simp
        from fallback_loop [OF nocmd this, of L w "[]" "[]"] pan show False
          by (simp add: Transform_def)
      qed
    next
      assume "\<exists>b \<in> set as. firstServiceDir b = None"
      from fallback_loop_panic [OF nocmd this, of L w "[]" "[]"]
      show "Transform L t as seen w = Inl IndexOutOfRange"
        by (simp add: Transform_def)
    qed
    from p q r show ?thesis by blast
  qed
  have guarded: "transformPath a = Inr [] \<and> (\<exists>s'. transformArtifact L t s a = Inr s')"
    if "TransformCMD (ExecConfig t) \<noteq> None" and "pathsAt (Paths a) ServiceDirPathType = None"
  proof -
    from that(1) obtain cmd where "TransformCMD (ExecConfig t) = Some cmd" by auto
    then have "\<exists>s'. transformArtifact L t s a = Inr s'"
      using transformPath_guarded [OF that(2)] by (rule command_step_returns)
    with transformPath_guarded [OF that(2)] show ?thesis by simp
  qed
  from fallback guarded show ?thesis by blast
qed

text \<open>
  At the concrete plugin: an artifact without paths panics the branch without a command,
  also after an artifact that was processed, and passes the guard of the other.
\<close>

theorem fallback_branch_unguarded_witness:
  "TransformCMD (ExecConfig (demo_plugin None None)) = None
   \<and> firstServiceDir bare_artifact = None
   \<and> firstServiceDir web_artifact \<noteq> None
   \<and> transformArtifact demo_lib (demo_plugin None None) (0, [], []) bare_artifact = Inl IndexOutOfRange
   \<and> Transform demo_lib (demo_plugin None None) [web_artifact, bare_artifact] [] 0 = Inl IndexOutOfRange
   \<and> TransformCMD (ExecConfig (demo_plugin None (Some [''exit1'']))) \<noteq> None
   \<and> pathsAt (Paths bare_artifact) ServiceDirPathType = None
   \<and> (\<exists>s'. transformArtifact demo_lib (demo_plugin None (Some [''exit1''])) (0, [], []) bare_artifact = Inr s')"
proof -
  have h1: "TransformCMD (ExecConfig (demo_plugin None None)) = None"
    by (simp add: demo_plugin_def)
  have h2: "firstServiceDir bare_artifact = None"
    by (simp add: firstServiceDir_def pathsAt_def bare_artifact_def)
  have h3: "firstServiceDir web_artifact \<noteq> None"
    by (simp add: firstServiceDir_def pathsAt_def web_artifact_def)
  have h4: "\<exists>b \<in> set [web_artifact, bare_artifact]. firstServiceDir b = None"
    using h2 by simp
  have h5: "TransformCMD (ExecConfig (demo_plugin None (Some [''exit1'']))) \<noteq> None"
    by (simp add: demo_plugin_def)
  have h6: "pathsAt (Paths bare_artifact) ServiceDirPathType = None"
    by (simp add: pathsAt_def bare_artifact_def)
  note A = fallback_branch_unguarded [of "demo_plugin None None" bare_artifact demo_lib "(0, [], [])"
      "[web_artifact, bare_artifact]" "[]" 0]
  note B = fallback_branch_unguarded [of "demo_plugin None (Some [''exit1''])" bare_artifact demo_lib
      "(0, [], [])" "[]" "[]" 0]
  from A h1 h2 have a1: "transformArtifact demo_lib (demo_plugin None None) (0, [], []) bare_artifact
      = Inl IndexOutOfRange"
    by blast
  from A h1 h4 have a2: "Transform demo_lib (demo_plugin None None) [web_artifact, bare_artifact] [] 0
      = Inl IndexOutOfRange"
    by blast
  from B h5 h6 have b1: "\<exists>s'. transformArtifact demo_lib (demo_plugin None (Some [''exit1''])) (0, [], [])
      bare_artifact = Inr s'"
    by blast
  from h1 h2 h3 a1 a2 h5 h6 b1 show ?thesis
    by blast
qed

text \<open>
  Claim C9 (the unguarded access, and the guard of the other branch). The claim says that
  for every artifact lacking a non-empty service directory list the access \<open>[0]\<close> of
  the branch without a transform command is out of bounds, unlike the branch with a
  transform command, which guards the same access. The first half holds. The guard,
  \<open>a.Paths != nil && a.Paths[ServiceDirPathType] != nil\<close>, tests the list against nil
  only: an artifact whose list is empty but not nil (JSON \<open>[]\<close>) lacks a non-empty list,
  panics in the branch without a command, and passes the guard of the other branch to
  panic at the same \<open>[0]\<close>.
\<close>

theorem command_branch_panics_on_empty_slice:
  "firstServiceDir empty_dirs_artifact = None
   \<and> pathsAt (Paths empty_dirs_artifact) ServiceDirPathType = Some []
   \<and> transformArtifact demo_lib (demo_plugin None None) (0, [], [])
        empty_dirs_artifact = Inl IndexOutOfRange
   \<and> transformPath empty_dirs_artifact = Inl IndexOutOfRange
   \<and> transformArtifact demo_lib (demo_plugin None (Some [''transform''])) (0, [], [])
        empty_dirs_artifact = Inl IndexOutOfRange"
  by (simp add: firstServiceDir_def pathsAt_def empty_dirs_artifact_def transformArtifact_def
      transformPath_def demo_plugin_def)

text \<open>
  Claim C2 (skip on bad exit, and a nil error for every input). The first half holds
  (\<open>command_step_skips\<close>), and \<open>Transform\<close> returns no error whenever it returns
  (\<open>Transform_error_nil\<close>); but it does not return for every input. Here the command
  exits with 1 for the first artifact, which is skipped, and the second artifact has an
  empty service directory list, which the guard lets through to \<open>[0]\<close>.
\<close>

theorem transform_panics_on_empty_service_dirs:
  "Transform demo_lib (demo_plugin None (Some [''exit1''])) [web_artifact, empty_dirs_artifact] [] 0
     = Inl IndexOutOfRange"
  by (simp add: Transform_def transformArtifact_def transformPath_def pathsAt_def
      web_artifact_def empty_dirs_artifact_def demo_plugin_def demo_env_def demo_Exec_def
      demo_run_def)

text \<open>
  Claim C5 (a parse failure contributes nothing). After the decoder reports an error the
  code logs it and goes on to append the output's fields; there is no \<open>continue\<close> as in
  the branches before it. Here the command prints an output whose \<open>createdArtifacts\<close>
  is a number: the decoder reports the type error and has decoded the path mapping, and
  \<open>Transform\<close> returns that path mapping.
\<close>

theorem transform_appends_partial_output:
  "Exec (Env (demo_plugin None (Some [''transform-partial'']))) 0 [''transform-partial'', ''/src/web'']
     = ((stdout_partial, [], 0, None), 1)
   \<and> json_Unmarshal_output demo_lib (strings_TrimSpace demo_lib stdout_partial)
       = (\<lparr> PathMappings = [out_mapping], CreatedArtifacts = [] \<rparr>, Some type_error)
   \<and> Transform demo_lib (demo_plugin None (Some [''transform-partial''])) [web_artifact] [] 0
       = Inr (([out_mapping], [], None), 1)"
proof -
  let ?t = "demo_plugin None (Some [''transform-partial''])"
  have cmd: "TransformCMD (ExecConfig ?t) = Some [''transform-partial'']"
    by (simp add: demo_plugin_def)
  have path: "transformPath web_artifact = Inr ''/src/web''"
    by (simp add: transformPath_def pathsAt_def web_artifact_def)
  have run: "Exec (Env ?t) 0 ([''transform-partial''] @ [''/src/web'']) = ((stdout_partial, [], 0, None), 1)"
    by (simp add: demo_plugin_def demo_env_def demo_Exec_def demo_run_def)
  have trim: "strings_TrimSpace demo_lib stdout_partial = stdout_partial"
    by (simp add: demo_lib_def demo_TrimSpace_def is_space_def stdout_partial_def)
  have dec: "json_Unmarshal_output demo_lib (strings_TrimSpace demo_lib stdout_partial)
       = (\<lparr> PathMappings = [out_mapping], CreatedArtifacts = [] \<rparr>, Some type_error)"
    unfolding trim
    by (simp add: demo_lib_def demo_Unmarshal_output_def stdout_partial_def stdout_output_def)
  have "transformArtifact demo_lib ?t (0, [], []) web_artifact = Inr (1, [] @ [out_mapping], [] @ [])"
    using command_step_appends [OF cmd path run dec, of "[]" "[]"] by simp
  then have "Transform demo_lib ?t [web_artifact] [] 0 = Inr (([out_mapping], [], None), 1)"
    by (simp add: Transform_def)
  with run dec show ?thesis by simp
qed

section \<open>Properties of initialisation\<close>

lemma IsPresent_iff: "IsPresent xs x \<longleftrightarrow> x \<in> set xs"
  by (simp add: IsPresent_def)

text \<open>
  Claim C7 (no platform, no image). Whatever the config loader reports, when the config
  it leaves has a platform list without the host operating system and an empty container
  image, \<open>Init\<close> returns an error: the loader's own, or the "platform not supported"
  one. It returns before the environment is touched, so the environment field keeps its
  old value and a nil \<open>env\<close> argument is never read.
\<close>

theorem init_fails_without_platform_or_image:
  assumes load: "GetObjFromInterface D (SpecConfig tc) = (cfg, err)"
    and platform: "GOOS D \<notin> set (Platforms cfg)"
    and image: "Image (ContainerCfg cfg) = []"
  shows "\<exists>e w'. Init D t tc env w
           = Inr ((Some e, t\<lparr>fConfig := Some tc, fExecConfig := Some cfg\<rparr>), w')"
proof (cases err)
  case (Some e)
  with load show ?thesis
    by (simp add: Init_def)
next
  case None
  obtain a e1 w1 where qa: "(if EnableQA cfg then StartGRPCReceiver D w else ((None, None), w))
      = ((a, e1), w1)"
    by (metis surj_pair)
  from load None qa platform image show ?thesis
    by (simp add: Init_def IsPresent_iff)
qed

text \<open>
  The theorem on a Linux host with a plugin declared for Windows only and no image, once
  with an environment argument and once with nil.
\<close>

theorem init_fails_without_platform_or_image_witness:
  "GetObjFromInterface demo_initdeps (SpecConfig \<lparr> Name = ''win'', SpecConfig = ''windows-only'' \<rparr>)
     = (windows_config, None)
   \<and> GOOS demo_initdeps \<notin> set (Platforms windows_config)
   \<and> Image (ContainerCfg windows_config) = []
   \<and> Init demo_initdeps fresh_fields \<lparr> Name = ''win'', SpecConfig = ''windows-only'' \<rparr> (Some ''info'') 0
       = Inr ((Some (OtherError ''platform linux not supported by transformer win''),
               fresh_fields\<lparr>fConfig := Some \<lparr> Name = ''win'', SpecConfig = ''windows-only'' \<rparr>,
                              fExecConfig := Some windows_config\<rparr>), 0)
   \<and> (\<exists>e w'. Init demo_initdeps fresh_fields \<lparr> Name = ''win'', SpecConfig = ''windows-only'' \<rparr> None 0
       = Inr ((Some e,
               fresh_fields\<lparr>fConfig := Some \<lparr> Name = ''win'', SpecConfig = ''windows-only'' \<rparr>,
                              fExecConfig := Some windows_config\<rparr>), w'))"
proof -
  let ?tc = "\<lparr> Name = ''win'', SpecConfig = ''windows-only'' \<rparr>"
  have h1: "GetObjFromInterface demo_initdeps (SpecConfig ?tc) = (windows_config, None)"
    by (simp add: demo_initdeps_def demo_GetObjFromInterface_def)
  have h2: "GOOS demo_initdeps \<notin> set (Platforms windows_config)"
    by (simp add: demo_initdeps_def windows_config_def)
  have h3: "Image (ContainerCfg windows_config) = []"
    by (simp add: windows_config_def)
  have v: "Init demo_initdeps fresh_fields ?tc (Some ''info'') 0
       = Inr ((Some (OtherError ''platform linux not supported by transformer win''),
               fresh_fields\<lparr>fConfig := Some ?tc, fExecConfig := Some windows_config\<rparr>), 0)"
    by (simp add: Init_def demo_initdeps_def demo_GetObjFromInterface_def windows_config_def
        IsPresent_iff)
  note ex = init_fails_without_platform_or_image [OF h1 h2 h3, of fresh_fields None 0]
  show ?thesis
    by (rule conjI [OF h1 conjI [OF h2 conjI [OF h3 conjI [OF v ex]]]])
qed

text \<open>
  Claim C10 (QA receiver fails to start). The config loads and enables QA, the receiver
  returns an error (with the address \<open>a\<close>, nil for a receiver that did not start), and
  the platform test passes. Then \<open>Init\<close> goes on to create the environment with the
  address \<open>a\<close>, and its error is the one of \<open>NewEnvironment\<close> alone: the receiver's
  error is never returned.
\<close>

theorem init_continues_without_qa:
  assumes load: "GetObjFromInterface D (SpecConfig tc) = (cfg, None)"
    and qa: "EnableQA cfg"
    and start: "StartGRPCReceiver D w = ((a, Some e), w1)"
    and platform: "GOOS D \<in> set (Platforms cfg) \<or> Image (ContainerCfg cfg) \<noteq> []"
    and new: "NewEnvironment D envInfo a (ContainerCfg cfg) w1 = ((env', err2), w2)"
  shows "Init D t tc (Some envInfo) w
           = Inr ((err2, t\<lparr>fConfig := Some tc, fExecConfig := Some cfg, fEnv := env'\<rparr>), w2)"
  using assms by (auto simp: Init_def IsPresent_iff)

text \<open>
  The theorem at a plugin that enables QA, with a receiver that returns a nil address and
  an error: \<open>Init\<close> succeeds, and the environment is created with the nil address.
\<close>

theorem init_continues_without_qa_witness:
  "GetObjFromInterface demo_initdeps (SpecConfig \<lparr> Name = ''ask'', SpecConfig = ''with-qa'' \<rparr>)
     = (qa_config, None)
   \<and> EnableQA qa_config
   \<and> StartGRPCReceiver demo_initdeps 0 = ((None, Some (OtherError ''failed to listen'')), 1)
   \<and> GOOS demo_initdeps \<in> set (Platforms qa_config)
   \<and> NewEnvironment demo_initdeps ''info'' None (ContainerCfg qa_config) 1 = ((Some demo_env, None), 2)
   \<and> Init demo_initdeps fresh_fields \<lparr> Name = ''ask'', SpecConfig = ''with-qa'' \<rparr> (Some ''info'') 0
       = Inr ((None, fresh_fields\<lparr>fConfig := Some \<lparr> Name = ''ask'', SpecConfig = ''with-qa'' \<rparr>,
                                    fExecConfig := Some qa_config, fEnv := Some demo_env\<rparr>), 2)"
proof -
  let ?tc = "\<lparr> Name = ''ask'', SpecConfig = ''with-qa'' \<rparr>"
  have h1: "GetObjFromInterface demo_initdeps (SpecConfig ?tc) = (qa_config, None)"
    by (simp add: demo_initdeps_def demo_GetObjFromInterface_def)
  have h2: "EnableQA qa_config"
    by (simp add: qa_config_def)
  have h3: "StartGRPCReceiver demo_initdeps 0 = ((None, Some (OtherError ''failed to listen'')), 1)"
    by (simp add: demo_initdeps_def)
  have h4: "GOOS demo_initdeps \<in> set (Platforms qa_config)"
    by (simp add: demo_initdeps_def qa_config_def)
  then have h4': "GOOS demo_initdeps \<in> set (Platforms qa_config) \<or> Image (ContainerCfg qa_config) \<noteq> []"
    by simp
  have h5: "NewEnvironment demo_initdeps ''info'' None (ContainerCfg qa_config) 1 = ((Some demo_env, None), 2)"
    by (simp add: demo_initdeps_def)
  from init_continues_without_qa [OF h1 h2 h3 h4' h5, of fresh_fields] h1 h2 h3 h4 h5
  show ?thesis by blast
qed

section \<open>Properties of the container engine\<close>

lemma get_cached:
  "inited g \<Longrightarrow> GetContainerEngine K g w = Returned ((workingEngine g, g), w)"
  by (simp add: GetContainerEngine_def)

lemma calls_cached:
  "inited g \<Longrightarrow> getEngineCalls K n g w = Returned ((replicate n (workingEngine g), g), w)"
  by (induction n) (simp_all add: get_cached)

lemma first_call_declined:
  "FetchBoolAnswer K w = (False, w1) \<Longrightarrow>
   GetContainerEngine K initial_globals w
     = Returned ((None, \<lparr> inited = True, disabled = True, workingEngine = None \<rparr>), w1)"
  by (simp add: GetContainerEngine_def initial_globals_def)

lemma first_call_fatal:
  "FetchBoolAnswer K w = (True, w1) \<Longrightarrow> newDockerEngine K w1 = ((eng, err), w2)
   \<Longrightarrow> err \<noteq> None \<or> eng = None
   \<Longrightarrow> GetContainerEngine K initial_globals w = Fatal"
  by (auto simp: GetContainerEngine_def initial_globals_def initContainerEngine_def Let_def)

lemma first_call_engine:
  "FetchBoolAnswer K w = (True, w1) \<Longrightarrow> newDockerEngine K w1 = ((Some e, None), w2)
   \<Longrightarrow> GetContainerEngine K initial_globals w
     = Returned ((Some e, \<lparr> inited = True, disabled = False, workingEngine = Some e \<rparr>), w2)"
  by (simp add: GetContainerEngine_def initial_globals_def initContainerEngine_def Let_def)

text \<open>
  Claim C8 (engine discovery once). From the start of the process, for any number of
  calls of \<open>GetContainerEngine\<close> one after the other:
    \<^item> when the operator declines, every call returns the nil engine, \<open>IsDisabled\<close> is
      true afterwards, and the world after the last call is the world after the one
      query: consent was asked once and no engine was looked for;
    \<^item> when the operator consents and \<open>newDockerEngine\<close> returns an error or a nil
      engine, the first call ends the process;
    \<^item> when the operator consents and an engine is found, every call returns that
      engine, and the world after the last call is the world after the one query and
      the one discovery;
    \<^item> once \<open>inited\<close> is set, a call returns the cached engine and changes neither the
      variables nor the world.
\<close>

theorem engine_discovery_once:
  "(FetchBoolAnswer K w = (False, w1) \<longrightarrow>
      getEngineCalls K (Suc n) initial_globals w
        = Returned ((replicate (Suc n) None,
                     \<lparr> inited = True, disabled = True, workingEngine = None \<rparr>), w1)
      \<and> IsDisabled \<lparr> inited = True, disabled = True, workingEngine = (None :: 'e option) \<rparr>)
   \<and> (FetchBoolAnswer K w = (True, w1) \<longrightarrow>
        (\<forall>eng err. newDockerEngine K w1 = ((eng, err), w2) \<longrightarrow> (err \<noteq> None \<or> eng = None)
           \<longrightarrow> GetContainerEngine K initial_globals w = Fatal)
      \<and> (\<forall>e. newDockerEngine K w1 = ((Some e, None), w2) \<longrightarrow>
           getEngineCalls K (Suc n) initial_globals w
             = Returned ((replicate (Suc n) (Some e),
                          \<lparr> inited = True, disabled = False, workingEngine = Some e \<rparr>), w2)))
   \<and> (inited g \<longrightarrow> GetContainerEngine K g w = Returned ((workingEngine g, g), w))"
proof -
  have declined: "getEngineCalls K (Suc n) initial_globals w
        = Returned ((replicate (Suc n) None,
                     \<lparr> inited = True, disabled = True, workingEngine = None \<rparr>), w1)"
    if "FetchBoolAnswer K w = (False, w1)"
    using first_call_declined [OF that]
      calls_cached [of "\<lparr> inited = True, disabled = True, workingEngine = None \<rparr>" K n w1]
    by simp
  have dis: "IsDisabled \<lparr> inited = True, disabled = True, workingEngine = (None :: 'e option) \<rparr>"
    by (simp add: IsDisabled_def)
  have fatal: "GetContainerEngine K initial_globals w = Fatal"
    if "FetchBoolAnswer K w = (True, w1)" "newDockerEngine K w1 = ((eng, err), w2)"
      "err \<noteq> None \<or> eng = None" for eng err
    using that by (rule first_call_fatal)
  have granted: "getEngineCalls K (Suc n) initial_globals w
             = Returned ((replicate (Suc n) (Some e),
                          \<lparr> inited = True, disabled = False, workingEngine = Some e \<rparr>), w2)"
    if "FetchBoolAnswer K w = (True, w1)" "newDockerEngine K w1 = ((Some e, None), w2)" for e
    using first_call_engine [OF that]
      calls_cached [of "\<lparr> inited = True, disabled = False, workingEngine = Some e \<rparr>" K n w2]
    by simp
  have cached: "inited g \<longrightarrow> GetContainerEngine K g w = Returned ((workingEngine g, g), w)"
    by (simp add: get_cached)
  from declined dis fatal granted cached show ?thesis
    by blast
qed

text \<open>
  The theorem at three operators and backends, three calls each: consent declined,
  consent given without a backend, consent given with docker.
\<close>

theorem engine_discovery_once_witness:
  "FetchBoolAnswer (demo_enginedeps False (Some ''docker'', None)) 0 = (False, 1)
   \<and> getEngineCalls (demo_enginedeps False (Some ''docker'', None)) (Suc 2) initial_globals 0
       = Returned (([None, None, None],
                    \<lparr> inited = True, disabled = True, workingEngine = None \<rparr>), 1)
   \<and> FetchBoolAnswer (demo_enginedeps True (None, Some (OtherError ''no docker''))) 0 = (True, 1)
   \<and> newDockerEngine (demo_enginedeps True (None, Some (OtherError ''no docker''))) 1
       = ((None, Some (OtherError ''no docker'')), 2)
   \<and> GetContainerEngine (demo_enginedeps True (None, Some (OtherError ''no docker''))) initial_globals 0
       = Fatal
   \<and> FetchBoolAnswer (demo_enginedeps True (Some ''docker'', None)) 0 = (True, 1)
   \<and> newDockerEngine (demo_enginedeps True (Some ''docker'', None)) 1 = ((Some ''docker'', None), 2)
   \<and> getEngineCalls (demo_enginedeps True (Some ''docker'', None)) (Suc 2) initial_globals 0
       = Returned (([Some ''docker'', Some ''docker'', Some ''docker''],
                    \<lparr> inited = True, disabled = False, workingEngine = Some ''docker'' \<rparr>), 2)"
proof -
  let ?no = "demo_enginedeps False (Some ''docker'', None)"
  let ?bad = "demo_enginedeps True (None, Some (OtherError ''no docker''))"
  let ?ok = "demo_enginedeps True (Some ''docker'', None)"
  have a1: "FetchBoolAnswer ?no 0 = (False, 1)"
    by (simp add: demo_enginedeps_def)
  have b1: "FetchBoolAnswer ?bad 0 = (True, 1)"
    by (simp add: demo_enginedeps_def)
  have b2: "newDockerEngine ?bad 1 = ((None, Some (OtherError ''no docker'')), 2)"
    by (simp add: demo_enginedeps_def)
  have c1: "FetchBoolAnswer ?ok 0 = (True, 1)"
    by (simp add: demo_enginedeps_def)
  have c2: "newDockerEngine ?ok 1 = ((Some ''docker'', None), 2)"
    by (simp add: demo_enginedeps_def)
  have r3: "replicate (Suc 2) x = [x, x, x]" for x :: "string option"
    by (simp add: numeral_2_eq_2)
  from engine_discovery_once [of ?no 0 1 2 2 initial_globals] a1
  have a: "getEngineCalls ?no (Suc 2) initial_globals 0
       = Returned (([None, None, None],
                    \<lparr> inited = True, disabled = True, workingEngine = None \<rparr>), 1)"
    unfolding r3 by blast
  from engine_discovery_once [of ?bad 0 1 2 2 initial_globals] b1 b2
  have b: "GetContainerEngine ?bad initial_globals 0 = Fatal"
    by blast
  from engine_discovery_once [of ?ok 0 1 2 2 initial_globals] c1 c2
  have c: "getEngineCalls ?ok (Suc 2) initial_globals 0
       = Returned (([Some ''docker'', Some ''docker'', Some ''docker''],
                    \<lparr> inited = True, disabled = False, workingEngine = Some ''docker'' \<rparr>), 2)"
    unfolding r3 by blast
  show ?thesis
    by (rule conjI [OF a1 conjI [OF a conjI [OF b1 conjI [OF b2 conjI [OF b conjI [OF c1 conjI [OF c2 c]]]]]]])
qed

end
